theory Spec2Isabelle
  imports Complex_Main "HOL-Library.Sublist" "HOL-Library.Log_Nat"
begin

section \<open>Data model of generate\_charging\_report.py\<close>

text \<open>
  The program keeps its data in two pandas DataFrames.  A DataFrame is modelled by its
  rows, in index order; a row is a record of the columns the program reads or writes, and
  every other column travels in the record's extension (\<open>'a wallbox_row_scheme\<close>,
  \<open>'b tibber_row_scheme\<close>).  Timestamps (pandas \<open>Timestamp\<close>, Python
  \<open>datetime\<close>) are integers counting microseconds; only their order and their
  differences matter.  A Python value that may be \<open>None\<close> is an \<open>option\<close>.
  Strings are ASCII.

  Numbers are rationals, and a float64 is the rational it denotes exactly.  Where the
  program stores a number in a float64 column, multiplies two floats, rounds a column or
  formats a float, the model rounds as binary64 does (\<open>fl\<close> below), because these
  steps decide the second decimal.  The additions inside \<open>Series.sum\<close> and
  \<open>Series.mean\<close> are exact sums: their rounding error is not modelled.  The columns
  are taken to hold numbers (no NaN).
\<close>

type_synonym timestamp = int

text \<open>One Wallbox charging session.  The two derived columns
  \<open>'Tibber Price [EUR/kWh]'\<close> and \<open>'Total Cost [EUR]'\<close> are absent (\<open>None\<close>)
  until the program adds them; \<open>id_chip_name\<close> is \<open>None\<close> where the cell is null.\<close>

record wallbox_row =
  start :: timestamp
  end_ts :: timestamp
  energy :: rat
  id_chip_name :: "string option"
  Tibber_Price_EUR_kWh :: "rat option"
  Total_Cost_EUR :: "rat option"

text \<open>The Wallbox DataFrame: its rows, and whether it has the two derived columns, which
  is a property of the frame and is known also when it has no rows.\<close>

record 'a wallbox_frame =
  has_price_columns :: bool
  rows :: "'a wallbox_row_scheme list"

text \<open>One hourly Tibber consumption node (columns \<open>from\<close>, \<open>to\<close>, \<open>unitPrice\<close>;
  \<open>cost\<close> and \<open>consumption\<close> are never read and stay in the extension).\<close>

record tibber_row =
  from_ts :: timestamp
  to_ts :: timestamp
  unitPrice :: rat

record address_info =
  address1 :: string
  postalCode :: string
  city :: string

record owner_info =
  firstName :: string
  lastName :: string

text \<open>The arguments \<open>generate_excel_report\<close> and \<open>generate_pdf_report\<close> receive.\<close>

record 'a report =
  filtered_data :: "'a wallbox_row_scheme list"
  start_date :: timestamp
  end_date :: timestamp
  total_energy :: rat
  total_cost :: rat
  report_address :: address_info
  report_owner :: owner_info

text \<open>What a report file shows: the summary and one line per session.  A formatted number
  is kept as the decimal number that is printed.\<close>

record report_line =
  line_date :: timestamp
  line_energy :: rat
  line_price :: "rat option"
  line_cost :: "rat option"

record written_report =
  shown_start_date :: timestamp
  shown_end_date :: timestamp
  shown_total_energy :: rat
  shown_total_cost :: rat
  shown_address :: address_info
  shown_owner :: owner_info
  shown_lines :: "report_line list"

text \<open>The dictionary \<open>save_cache\<close> pickles.\<close>

record ('a, 'b) cache =
  timestamp :: timestamp
  wallbox_data :: "'a wallbox_frame option"
  tibber_data :: "'b tibber_row_scheme list option"
  address :: "address_info option"
  owner :: "owner_info option"

text \<open>The file \<open>cache.pkl\<close>: missing, present but not the pickle of such a dictionary
  (\<open>pickle.load\<close> or the lookup of \<open>'timestamp'\<close> raises), or a pickled dictionary.\<close>

datatype ('a, 'b) cache_file = Absent | Corrupt | Pickled "('a, 'b) cache"

text \<open>The exceptions that leave a function of the program.\<close>

datatype py_error =
    AttributeError | TypeError | ValueError | KeyError | UnpicklingError | FileNotFoundError
  | ReError

text \<open>What the program prints, logs, requests and writes, in order.\<close>

datatype 'a event =
    Print_no_matching_price timestamp timestamp
  | Print_csv_completed
  | Wrote_csv "'a wallbox_row_scheme list"
  | Print_rows_before nat
  | Print_rows_after nat
  | Print_totals rat rat
  | Wrote_xlsx written_report
  | Wrote_pdf written_report
  | Print_reports_generated
  | Print_using_cached
  | Print_fetching
  | Http_get_wallbox
  | Http_post_tibber
  | Log_error_wallbox
  | Log_error_tibber
  | Print_exporting
  | Print_processing
  | Print_success

section \<open>Binary64 rounding\<close>

text \<open>To the nearest integer, a tie to the even one (\<open>numpy.rint\<close>; also the rule of
  binary64 arithmetic and of Python's number formatting).\<close>

definition round_half_even :: "rat \<Rightarrow> int" where
  "round_half_even x =
     (let f = \<lfloor>x\<rfloor>; d = x - of_int f
      in if d < 1 / 2 then f else if 1 / 2 < d then f + 1 else if even f then f else f + 1)"

definition pow2 :: "int \<Rightarrow> rat" where
  "pow2 n = (if 0 \<le> n then 2 ^ nat n else 1 / 2 ^ nat (- n))"

text \<open>The exponent \<open>e\<close> of a positive number \<open>a\<close>, with
  \<open>2 ^ e \<le> a < 2 ^ (e + 1)\<close>: one less than the bit length of the integer part of
  \<open>a\<close>, or, below 1, found from the integer part of \<open>1 / a\<close>.\<close>

definition binade :: "rat \<Rightarrow> int" where
  "binade a =
     (if 1 \<le> a then int (floorlog 2 (nat \<lfloor>a\<rfloor>)) - 1
      else (let j = int (floorlog 2 (nat \<lfloor>1 / a\<rfloor>)) - 1
            in if a = pow2 (- j) then - j else - j - 1))"

text \<open>
  \<open>fl x\<close> is the binary64 number nearest to \<open>x\<close>, a tie going to the even
  significand: the multiple of \<open>2 ^ (e - 52)\<close> nearest to \<open>x\<close>, where \<open>e\<close> is the
  exponent of \<open>|x|\<close>.  Overflow and subnormal numbers, far from any energy or price,
  are not modelled.
\<close>

definition fl :: "rat \<Rightarrow> rat" where
  "fl x =
     (if x = 0 then 0
      else (let u = pow2 (binade \<bar>x\<bar> - 52)
            in sgn x * of_int (round_half_even (\<bar>x\<bar> / u)) * u))"

text \<open>\<open>DataFrame.round(2)\<close> on a float64 column is numpy's rounding: multiply by 100,
  round to the nearest integer, divide by 100, each step in binary64.\<close>

definition np_round2 :: "rat \<Rightarrow> rat" where
  "np_round2 x = fl (of_int (round_half_even (fl (x * 100))) / 100)"

text \<open>The format \<open>:.2f\<close> (\<open>:.4f\<close>) prints the decimal with 2 (4) digits nearest to
  the exact value of the float, a tie to the even digit.\<close>

definition format_f :: "nat \<Rightarrow> rat \<Rightarrow> rat" where
  "format_f digits x = of_int (round_half_even (x * 10 ^ digits)) / 10 ^ digits"

section \<open>calculate\_tibber\_price\<close>

text \<open>The boolean mask of line 197 selects the rows of \<open>tibber_df\<close>, keeping their
  order.\<close>

definition price_during_session ::
  "timestamp \<Rightarrow> timestamp \<Rightarrow> 'b tibber_row_scheme list \<Rightarrow> 'b tibber_row_scheme list" where
  "price_during_session start_time end_time tibber_df =
     filter (\<lambda>r. from_ts r \<le> end_time \<and> to_ts r \<ge> start_time) tibber_df"

text \<open>\<open>Series.mean()\<close> of a column without NaN: the sum over the count.\<close>

definition series_mean :: "rat list \<Rightarrow> rat" where
  "series_mean xs = sum_list xs / of_nat (length xs)"

text \<open>The result is the returned price and what the call prints: nothing, or the one line
  \<open>No matching Tibber price found for session between start_time and end_time\<close>, kept
  as the pair of the two times.\<close>

definition calculate_tibber_price ::
  "timestamp \<Rightarrow> timestamp \<Rightarrow> 'b tibber_row_scheme list \<Rightarrow> rat \<times> (timestamp \<times> timestamp) list" where
  "calculate_tibber_price start_time end_time tibber_df =
     (if price_during_session start_time end_time tibber_df = []
      then (0, [(start_time, end_time)])
      else (series_mean (map unitPrice (price_during_session start_time end_time tibber_df)), []))"

section \<open>export\_table\_with\_prices\<close>

text \<open>Lines 205 to 208 (and 339 to 346), row by row: the price column holds the result of
  \<open>calculate_tibber_price\<close> on the row as a float64, the cost column the float product
  of the row's energy and that price.\<close>

definition price_row :: "'b tibber_row_scheme list \<Rightarrow> 'a wallbox_row_scheme \<Rightarrow> 'a wallbox_row_scheme" where
  "price_row tibber_df row =
     (let p = fl (fst (calculate_tibber_price (start row) (end_ts row) tibber_df))
      in row\<lparr>Tibber_Price_EUR_kWh := Some p, Total_Cost_EUR := Some (fl (energy row * p))\<rparr>)"

definition price_prints :: "'b tibber_row_scheme list \<Rightarrow> 'a wallbox_row_scheme list \<Rightarrow> 'a event list" where
  "price_prints tibber_df sessions =
     map (\<lambda>(s, e). Print_no_matching_price s e)
       (concat (map (\<lambda>row. snd (calculate_tibber_price (start row) (end_ts row) tibber_df)) sessions))"

text \<open>Line 209: the three columns are replaced by their values rounded to 2 decimals.\<close>

definition round_row :: "'a wallbox_row_scheme \<Rightarrow> 'a wallbox_row_scheme" where
  "round_row row =
     row\<lparr>energy := np_round2 (energy row),
         Tibber_Price_EUR_kWh := map_option np_round2 (Tibber_Price_EUR_kWh row),
         Total_Cost_EUR := map_option np_round2 (Total_Cost_EUR row)\<rparr>"

text \<open>
  \<open>export_table_with_prices\<close> changes the DataFrame it is given: the result holds the
  frame after the call and the events of the call.  Called with \<open>None\<close> for the frame
  it raises at \<open>wallbox_data.apply\<close>; called with \<open>None\<close> for \<open>tibber_df\<close> it raises
  inside \<open>calculate_tibber_price\<close> on the first row.  On a frame without rows
  \<open>DataFrame.apply\<close> probes the function with a row of NaN, drops the exception that
  the comparison with a timestamp (or the subscript of \<open>None\<close>) raises, and returns a
  copy of the frame; assigning that frame of several columns to the one column raises
  \<open>ValueError\<close>.
\<close>

definition export_table_with_prices ::
  "'a wallbox_frame option \<Rightarrow> 'b tibber_row_scheme list option
     \<Rightarrow> py_error + ('a wallbox_frame \<times> 'a event list)" where
  "export_table_with_prices wallbox_data' tibber_df =
     (case wallbox_data' of
        None \<Rightarrow> Inl AttributeError
      | Some frame \<Rightarrow>
          if rows frame = [] then Inl ValueError
          else (case tibber_df of
                  None \<Rightarrow> Inl TypeError
                | Some prices \<Rightarrow>
                    (let rounded = map (round_row \<circ> price_row prices) (rows frame)
                     in Inr (\<lparr>has_price_columns = True, rows = rounded\<rparr>,
                             price_prints prices (rows frame)
                             @ [Wrote_csv rounded, Print_csv_completed]))))"

section \<open>The report generators\<close>

text \<open>What \<open>generate_excel_report\<close> writes (lines 233 to 260): the totals and every
  session's energy, price and cost with the format \<open>:.2f\<close>.\<close>

definition generate_excel_report :: "'a report \<Rightarrow> written_report" where
  "generate_excel_report r =
     \<lparr>shown_start_date = start_date r, shown_end_date = end_date r,
      shown_total_energy = format_f 2 (total_energy r),
      shown_total_cost = format_f 2 (total_cost r),
      shown_address = report_address r, shown_owner = report_owner r,
      shown_lines =
        map (\<lambda>session.
               \<lparr>line_date = start session,
                line_energy = format_f 2 (energy session),
                line_price = map_option (format_f 2) (Tibber_Price_EUR_kWh session),
                line_cost = map_option (format_f 2) (Total_Cost_EUR session)\<rparr>)
            (filtered_data r)\<rparr>"

text \<open>\<open>generate_pdf_report\<close> (lines 283 to 317) shows the same, the price with
  \<open>:.4f\<close>.\<close>

definition generate_pdf_report :: "'a report \<Rightarrow> written_report" where
  "generate_pdf_report r =
     \<lparr>shown_start_date = start_date r, shown_end_date = end_date r,
      shown_total_energy = format_f 2 (total_energy r),
      shown_total_cost = format_f 2 (total_cost r),
      shown_address = report_address r, shown_owner = report_owner r,
      shown_lines =
        map (\<lambda>session.
               \<lparr>line_date = start session,
                line_energy = format_f 2 (energy session),
                line_price = map_option (format_f 4) (Tibber_Price_EUR_kWh session),
                line_cost = map_option (format_f 2) (Total_Cost_EUR session)\<rparr>)
            (filtered_data r)\<rparr>"

section \<open>process\_data\_with\_filters\<close>

text \<open>
  \<open>Series.str.contains(pat, case=False, na=False)\<close> compiles \<open>pat\<close> as a regular
  expression (the default \<open>regex=True\<close>) with \<open>re.IGNORECASE\<close> and searches every
  string for a match; a null cell gives \<open>False\<close>.  The model defines the search for
  the patterns made of ordinary characters and of \<open>.\<close> (any character but a newline);
  for a pattern with another metacharacter the regular-expression engine is a parameter
  \<open>re_engine\<close>, which returns the compiled search or \<open>None\<close> when \<open>re.compile\<close>
  raises.
\<close>

definition lower_ch :: "char \<Rightarrow> char" where
  "lower_ch c =
     (case map_of (zip ''ABCDEFGHIJKLMNOPQRSTUVWXYZ'' ''abcdefghijklmnopqrstuvwxyz'') c of
        None \<Rightarrow> c
      | Some l \<Rightarrow> l)"

definition other_metachars :: "char list" where
  "other_metachars = ''^$*+?{}[]|()'' @ [CHR 0x5C]"

definition pat_char_matches :: "char \<Rightarrow> char \<Rightarrow> bool" where
  "pat_char_matches p c = (if p = CHR ''.'' then c \<noteq> CHR 0x0A else lower_ch p = lower_ch c)"

fun match_here :: "string \<Rightarrow> string \<Rightarrow> bool" where
  "match_here [] s = True"
| "match_here (p # ps) [] = False"
| "match_here (p # ps) (c # cs) = (pat_char_matches p c \<and> match_here ps cs)"

fun re_search :: "string \<Rightarrow> string \<Rightarrow> bool" where
  "re_search pat [] = match_here pat []"
| "re_search pat (c # cs) = (match_here pat (c # cs) \<or> re_search pat cs)"

definition re_compile ::
  "(string \<Rightarrow> (string \<Rightarrow> bool) option) \<Rightarrow> string \<Rightarrow> py_error + (string \<Rightarrow> bool)" where
  "re_compile re_engine pat =
     (if list_all (\<lambda>c. c \<notin> set other_metachars) pat then Inr (re_search pat)
      else (case re_engine pat of None \<Rightarrow> Inl ReError | Some search \<Rightarrow> Inr search))"

definition str_contains :: "(string \<Rightarrow> bool) \<Rightarrow> string option \<Rightarrow> bool" where
  "str_contains search cell = (case cell of None \<Rightarrow> False | Some s \<Rightarrow> search s)"

text \<open>\<open>Series.sum()\<close> skips missing values.\<close>

definition series_sum :: "rat option list \<Rightarrow> rat" where
  "series_sum xs = sum_list (map (\<lambda>v. case v of None \<Rightarrow> 0 | Some x \<Rightarrow> x) xs)"

text \<open>
  The result is what the function printed and wrote, and the exception that left it or
  the arguments it passed to the two report generators.  \<open>filtered_data\<close> is a new
  frame: the frame \<open>wallbox_data\<close> of the caller is not changed.

  Line 339 assigns the result of \<open>filtered_data.apply\<close> to the price column.  When no
  row is selected, \<open>apply\<close> returns a copy of the empty frame (see
  \<open>export_table_with_prices\<close>); if the frame has the price column already, the
  assignment aligns the copy on that column and changes nothing, and if it has not, the
  assignment of a frame of several columns to one new column raises \<open>ValueError\<close>.

  When \<open>address\<close> or \<open>owner\<close> is \<open>None\<close>, \<open>generate_excel_report\<close> raises at the
  first subscript, before the workbook is closed, so no report file is written.
\<close>

definition process_data_with_filters ::
  "(string \<Rightarrow> (string \<Rightarrow> bool) option) \<Rightarrow> 'a wallbox_frame \<Rightarrow> 'b tibber_row_scheme list
     \<Rightarrow> string \<Rightarrow> timestamp \<Rightarrow> timestamp \<Rightarrow> address_info option \<Rightarrow> owner_info option
     \<Rightarrow> 'a event list \<times> (py_error + 'a report)" where
  "process_data_with_filters re_engine wallbox_data' tibber_df id_chip_name' start_date' end_date'
       address' owner' =
     (case re_compile re_engine id_chip_name' of
        Inl e \<Rightarrow> ([], Inl e)
      | Inr search \<Rightarrow>
          (let selected = filter (\<lambda>row. str_contains search (id_chip_name row)
                                      \<and> start row \<ge> start_date' \<and> end_ts row \<le> end_date')
                                 (rows wallbox_data')
           in if selected = [] \<and> \<not> has_price_columns wallbox_data'
              then ([Print_rows_before 0], Inl ValueError)
              else
                (let priced = map (price_row tibber_df) selected;
                     energy_sum = sum_list (map energy priced);
                     cost_sum = series_sum (map Total_Cost_EUR priced);
                     prints = [Print_rows_before (length selected)]
                              @ price_prints tibber_df selected
                              @ [Print_rows_after (length priced), Print_totals energy_sum cost_sum]
                 in (case (address', owner') of
                       (Some a, Some ow) \<Rightarrow>
                         (let r = \<lparr>filtered_data = priced, start_date = start_date',
                                   end_date = end_date', total_energy = energy_sum,
                                   total_cost = cost_sum, report_address = a, report_owner = ow\<rparr>
                          in (prints @ [Wrote_xlsx (generate_excel_report r),
                                        Wrote_pdf (generate_pdf_report r), Print_reports_generated],
                              Inr r))
                     | _ \<Rightarrow> (prints, Inl TypeError)))))"

section \<open>The cache\<close>

definition timedelta_hours :: "int \<Rightarrow> int" where
  "timedelta_hours h = h * 3600000000"

definition timedelta_minutes :: "int \<Rightarrow> int" where
  "timedelta_minutes m = m * 60000000"

text \<open>\<open>is_cache_valid\<close>, with \<open>datetime.now()\<close> as the argument \<open>now\<close>.\<close>

fun is_cache_valid :: "timestamp \<Rightarrow> ('a, 'b) cache_file \<Rightarrow> py_error + bool" where
  "is_cache_valid now Absent = Inr False"
| "is_cache_valid now Corrupt = Inl UnpicklingError"
| "is_cache_valid now (Pickled c) =
     (if now - timestamp c < timedelta_hours 1 then Inr True else Inr False)"

text \<open>\<open>load_cache\<close>: the subscripts \<open>wallbox_data['start']\<close> and \<open>tibber_df['from']\<close>
  raise \<open>TypeError\<close> on \<open>None\<close>; on frames the conversions to datetime change
  nothing, the columns being datetimes already.\<close>

fun load_cache ::
  "('a, 'b) cache_file \<Rightarrow>
     py_error + ('a wallbox_frame \<times> 'b tibber_row_scheme list
                 \<times> address_info option \<times> owner_info option)" where
  "load_cache Absent = Inl FileNotFoundError"
| "load_cache Corrupt = Inl UnpicklingError"
| "load_cache (Pickled c) =
     (case wallbox_data c of
        None \<Rightarrow> Inl TypeError
      | Some frame \<Rightarrow>
          (case tibber_data c of
             None \<Rightarrow> Inl TypeError
           | Some prices \<Rightarrow> Inr (frame, prices, address c, owner c)))"

definition save_cache ::
  "timestamp \<Rightarrow> 'a wallbox_frame option \<Rightarrow> 'b tibber_row_scheme list option
     \<Rightarrow> address_info option \<Rightarrow> owner_info option \<Rightarrow> ('a, 'b) cache_file" where
  "save_cache now wallbox_data' tibber_df address' owner' =
     Pickled \<lparr>timestamp = now, wallbox_data = wallbox_data', tibber_data = tibber_df,
              address = address', owner = owner'\<rparr>"

section \<open>The two retrievals\<close>

text \<open>
  What a request meets: \<open>requests\<close> raises a \<open>RequestException\<close> (no connection, an
  HTTP error status, a body that is not JSON); or the response arrives and building the
  frame from it raises another exception (a missing key, a date or an energy that does not
  parse), which no handler of the program catches; or the response yields the rows, the
  address and the owner.
\<close>

datatype 'r response = Request_exception | Other_exception py_error | Payload 'r

text \<open>
  What a run meets outside the program: the clock, the two responses, the three answers
  typed by the user, and the regular-expression engine.
\<close>

record ('a, 'b) env =
  now :: timestamp
  wallbox_response :: "('a wallbox_row_scheme list \<times> address_info \<times> owner_info) response"
  tibber_response :: "('b tibber_row_scheme list \<times> address_info \<times> owner_info) response"
  input_id_chip_name :: string
  input_start_date :: timestamp
  input_end_date :: timestamp
  re_engine :: "string \<Rightarrow> (string \<Rightarrow> bool) option"

text \<open>\<open>fetch_wallbox_data\<close>: the handler of line 120 turns a \<open>RequestException\<close> into
  the logged error and three \<open>None\<close>; line 114 makes the energy column float64.\<close>

definition fetch_wallbox_data ::
  "('a, 'b) env \<Rightarrow>
     (py_error + ('a wallbox_frame option \<times> address_info option \<times> owner_info option))
       \<times> 'a event list" where
  "fetch_wallbox_data env =
     (case wallbox_response env of
        Request_exception \<Rightarrow> (Inr (None, None, None), [Http_get_wallbox, Log_error_wallbox])
      | Other_exception e \<Rightarrow> (Inl e, [Http_get_wallbox])
      | Payload (sessions, a, ow) \<Rightarrow>
          (Inr (Some \<lparr>has_price_columns = False,
                      rows = map (\<lambda>row. row\<lparr>energy := fl (energy row)\<rparr>) sessions\<rparr>,
                Some a, Some ow),
           [Http_get_wallbox]))"

text \<open>\<open>fetch_tibber_data\<close>: as above; with no node at all the DataFrame of line 183 has
  no column and the subscript \<open>tibber_df['from']\<close> of line 184 raises \<open>KeyError\<close>.\<close>

definition fetch_tibber_data ::
  "('a, 'b) env \<Rightarrow>
     (py_error + ('b tibber_row_scheme list option \<times> address_info option \<times> owner_info option))
       \<times> 'a event list" where
  "fetch_tibber_data env =
     (case tibber_response env of
        Request_exception \<Rightarrow> (Inr (None, None, None), [Http_post_tibber, Log_error_tibber])
      | Other_exception e \<Rightarrow> (Inl e, [Http_post_tibber])
      | Payload (prices, a, ow) \<Rightarrow>
          if prices = [] then (Inl KeyError, [Http_post_tibber])
          else (Inr (Some prices, Some a, Some ow), [Http_post_tibber]))"

section \<open>main\<close>

text \<open>The state a run changes: the cache file, and the trace of what it printed,
  logged, requested and wrote.\<close>

record ('a, 'b) world =
  cache_file :: "('a, 'b) cache_file"
  trace :: "'a event list"

text \<open>Steps 2 to 4 of \<open>main\<close>, from the four values step 1 produced.  The branch
  for \<open>tibber_df = None\<close> after the export is never taken: the export raises on it.\<close>

definition report_steps ::
  "('a, 'b) env \<Rightarrow> ('a, 'b) world \<Rightarrow> 'a wallbox_frame option
     \<Rightarrow> 'b tibber_row_scheme list option \<Rightarrow> address_info option \<Rightarrow> owner_info option
     \<Rightarrow> ('a, 'b) world \<times> (py_error + unit)" where
  "report_steps env w wallbox_data' tibber_df address' owner' =
     (case export_table_with_prices wallbox_data' tibber_df of
        Inl e \<Rightarrow> (w\<lparr>trace := trace w @ [Print_exporting]\<rparr>, Inl e)
      | Inr (exported, export_events) \<Rightarrow>
          (case tibber_df of
             None \<Rightarrow> (w\<lparr>trace := trace w @ [Print_exporting] @ export_events\<rparr>, Inl TypeError)
           | Some prices \<Rightarrow>
               (case process_data_with_filters (re_engine env) exported prices
                       (input_id_chip_name env) (input_start_date env) (input_end_date env)
                       address' owner' of
                  (process_events, outcome) \<Rightarrow>
                    (let tr = trace w @ [Print_exporting] @ export_events
                              @ [Print_processing] @ process_events
                     in (case outcome of
                           Inl e \<Rightarrow> (w\<lparr>trace := tr\<rparr>, Inl e)
                         | Inr r \<Rightarrow> (w\<lparr>trace := tr @ [Print_success]\<rparr>, Inr ()))))))"

definition main :: "('a, 'b) env \<Rightarrow> ('a, 'b) world \<Rightarrow> ('a, 'b) world \<times> (py_error + unit)" where
  "main env w =
     (case is_cache_valid (now env) (cache_file w) of
        Inl e \<Rightarrow> (w, Inl e)
      | Inr True \<Rightarrow>
          (case load_cache (cache_file w) of
             Inl e \<Rightarrow> (w\<lparr>trace := trace w @ [Print_using_cached]\<rparr>, Inl e)
           | Inr (frame, prices, address', owner') \<Rightarrow>
               report_steps env (w\<lparr>trace := trace w @ [Print_using_cached]\<rparr>)
                 (Some frame) (Some prices) address' owner')
      | Inr False \<Rightarrow>
          (case fetch_wallbox_data env of
             (Inl e, wallbox_events) \<Rightarrow>
               (w\<lparr>trace := trace w @ [Print_fetching] @ wallbox_events\<rparr>, Inl e)
           | (Inr (wallbox_data', address', owner'), wallbox_events) \<Rightarrow>
               (case fetch_tibber_data env of
                  (Inl e, tibber_events) \<Rightarrow>
                    (w\<lparr>trace := trace w @ [Print_fetching] @ wallbox_events @ tibber_events\<rparr>,
                     Inl e)
                | (Inr (tibber_df, tibber_address, tibber_owner), tibber_events) \<Rightarrow>
                    report_steps env
                      \<lparr>cache_file = save_cache (now env) wallbox_data' tibber_df tibber_address
                                      tibber_owner,
                       trace = trace w @ [Print_fetching] @ wallbox_events @ tibber_events\<rparr>
                      wallbox_data' tibber_df tibber_address tibber_owner)))"

section \<open>The specification's words\<close>

text \<open>Section 4.1 of the specification: an interval \<open>[from, to)\<close> overlaps the session
  \<open>[start, end)\<close> iff \<open>from \<le> end\<close> and \<open>to \<ge> start\<close>.\<close>

definition spec_overlaps :: "timestamp \<Rightarrow> timestamp \<Rightarrow> 'b tibber_row_scheme \<Rightarrow> bool" where
  "spec_overlaps s e r = (from_ts r \<le> e \<and> to_ts r \<ge> s)"

text \<open>The unweighted arithmetic mean of the unit prices of a list of intervals.\<close>

definition spec_unweighted_mean :: "'b tibber_row_scheme list \<Rightarrow> rat" where
  "spec_unweighted_mean rs = (\<Sum>r\<leftarrow>rs. unitPrice r) / of_nat (length rs)"

text \<open>The duration-weighted blend the specification says the program does \<^emph>\<open>not\<close>
  compute: each overlapping interval's price weighted by the time the session spends in
  it.\<close>

definition spec_overlap_duration :: "timestamp \<Rightarrow> timestamp \<Rightarrow> 'b tibber_row_scheme \<Rightarrow> int" where
  "spec_overlap_duration s e r = max 0 (min e (to_ts r) - max s (from_ts r))"

definition spec_weighted_mean :: "timestamp \<Rightarrow> timestamp \<Rightarrow> 'b tibber_row_scheme list \<Rightarrow> rat" where
  "spec_weighted_mean s e rs =
     (\<Sum>r\<leftarrow>rs. unitPrice r * of_int (spec_overlap_duration s e r))
       / of_int (\<Sum>r\<leftarrow>rs. spec_overlap_duration s e r)"

text \<open>Section 4.3: the effective price of a session; the cost of a session before any
  rounding to 2 decimals, which is the float product of its energy and its effective price;
  and the summary's total cost as the specification has it, the sum of the per-row costs
  each rounded to 2 decimals first.\<close>

definition effectivePrice :: "'b tibber_row_scheme list \<Rightarrow> 'a wallbox_row_scheme \<Rightarrow> rat" where
  "effectivePrice prices row =
     fst (calculate_tibber_price (start row) (end_ts row) prices)"

definition unrounded_cost :: "'b tibber_row_scheme list \<Rightarrow> 'a wallbox_row_scheme \<Rightarrow> rat" where
  "unrounded_cost prices row = fl (energy row * fl (effectivePrice prices row))"

definition spec_rounded_cost_total :: "'b tibber_row_scheme list \<Rightarrow> 'a wallbox_row_scheme list \<Rightarrow> rat" where
  "spec_rounded_cost_total prices sessions =
     (\<Sum>row\<leftarrow>sessions. np_round2 (unrounded_cost prices row))"

text \<open>Section 4.5: a session is retained iff its identifier is present and contains the
  substring, letter case ignored, and it lies in the date range.\<close>

definition spec_contains_ci :: "string \<Rightarrow> string option \<Rightarrow> bool" where
  "spec_contains_ci sub cell =
     (case cell of None \<Rightarrow> False | Some s \<Rightarrow> sublist (map lower_ch sub) (map lower_ch s))"

definition spec_retained :: "string \<Rightarrow> timestamp \<Rightarrow> timestamp \<Rightarrow> 'a wallbox_row_scheme \<Rightarrow> bool" where
  "spec_retained sub sd ed row =
     (spec_contains_ci sub (id_chip_name row) \<and> start row \<ge> sd \<and> end_ts row \<le> ed)"

text \<open>Section 3: a session's original fields are read-only.  \<open>unchanged_but_derived\<close>
  says that a row differs from the original in the two derived columns at most;
  \<open>unchanged_but_energy\<close> says the same but for \<open>energy\<close>, which holds the original
  value rounded to 2 decimals by \<open>DataFrame.round\<close>.\<close>

definition unchanged_but_derived :: "'a wallbox_row_scheme \<Rightarrow> 'a wallbox_row_scheme \<Rightarrow> bool" where
  "unchanged_but_derived row row' =
     (start row' = start row \<and> end_ts row' = end_ts row \<and> energy row' = energy row
      \<and> id_chip_name row' = id_chip_name row \<and> wallbox_row.more row' = wallbox_row.more row)"

definition unchanged_but_energy :: "'a wallbox_row_scheme \<Rightarrow> 'a wallbox_row_scheme \<Rightarrow> bool" where
  "unchanged_but_energy row row' =
     (start row' = start row \<and> end_ts row' = end_ts row \<and> energy row' = np_round2 (energy row)
      \<and> id_chip_name row' = id_chip_name row \<and> wallbox_row.more row' = wallbox_row.more row)"

text \<open>The per-row costs a run has exported: those of every CSV file, and those shown by
  every spreadsheet report, in the order of writing.\<close>

fun csv_costs_of :: "'a event \<Rightarrow> rat option list list" where
  "csv_costs_of (Wrote_csv sessions) = [map Total_Cost_EUR sessions]"
| "csv_costs_of _ = []"

fun xlsx_costs_of :: "'a event \<Rightarrow> rat option list list" where
  "xlsx_costs_of (Wrote_xlsx r) = [map line_cost (shown_lines r)]"
| "xlsx_costs_of _ = []"

definition exported_csv_costs :: "'a event list \<Rightarrow> rat option list list" where
  "exported_csv_costs events = concat (map csv_costs_of events)"

definition exported_xlsx_costs :: "'a event list \<Rightarrow> rat option list list" where
  "exported_xlsx_costs events = concat (map xlsx_costs_of events)"

section \<open>Concrete inputs\<close>

text \<open>The scenario of section 8 of the specification: one session from 10:00 to 11:30 with
  the identifier \<open>VolvoXC40\<close>, its energy the float written \<open>kwh\<close>, and the two hourly
  prices 0.30 (10:00 to 11:00) and 0.40 (11:00 to 12:00).  The clock of the run reads 13:00;
  the user asks for \<open>volvo\<close> over the whole day.  Decimals are written as fractions in
  lowest terms: 0.40 is \<open>2 / 5\<close>, 1.443 is \<open>1443 / 1000\<close>.\<close>

definition ex_prices :: "tibber_row list" where
  "ex_prices =
     [\<lparr>from_ts = timedelta_hours 10, to_ts = timedelta_hours 11, unitPrice = 3 / 10\<rparr>,
      \<lparr>from_ts = timedelta_hours 11, to_ts = timedelta_hours 12, unitPrice = 2 / 5\<rparr>]"

definition ex_session :: "rat \<Rightarrow> wallbox_row" where
  "ex_session kwh =
     \<lparr>start = timedelta_hours 10, end_ts = timedelta_hours 11 + timedelta_minutes 30,
      energy = fl kwh, id_chip_name = Some ''VolvoXC40'',
      Tibber_Price_EUR_kWh = None, Total_Cost_EUR = None\<rparr>"

definition ex_frame :: "rat \<Rightarrow> unit wallbox_frame" where
  "ex_frame kwh = \<lparr>has_price_columns = False, rows = [ex_session kwh]\<rparr>"

definition ex_address :: address_info where
  "ex_address = \<lparr>address1 = ''Street 1'', postalCode = ''12345'', city = ''Town''\<rparr>"

definition ex_owner :: owner_info where
  "ex_owner = \<lparr>firstName = ''Ada'', lastName = ''Doe''\<rparr>"

definition ex_env :: "rat \<Rightarrow> (unit, unit) env" where
  "ex_env kwh =
     \<lparr>now = timedelta_hours 13,
      wallbox_response = Payload ([ex_session kwh], ex_address, ex_owner),
      tibber_response = Payload (ex_prices, ex_address, ex_owner),
      input_id_chip_name = ''volvo'',
      input_start_date = 0,
      input_end_date = timedelta_hours 24,
      re_engine = (\<lambda>pat. None)\<rparr>"

definition ex_world :: "(unit, unit) cache_file \<Rightarrow> (unit, unit) world" where
  "ex_world file = \<lparr>cache_file = file, trace = []\<rparr>"

section \<open>Theorems\<close>

subsection \<open>Evaluation of the concrete inputs and of the building blocks\<close>

lemma floor_rat_numeral [simp]:
  "\<lfloor>numeral a / numeral b :: rat\<rfloor> = numeral a div numeral b"
  by (metis floor_divide_of_int_eq of_int_numeral)

lemma floor_rat_one_numeral [simp]:
  "\<lfloor>1 / numeral b :: rat\<rfloor> = 1 div numeral b"
  by (metis floor_divide_of_int_eq of_int_numeral of_int_1)

lemmas fl_eval = fl_def binade_def pow2_def round_half_even_def Let_def compute_floorlog

lemmas ex_defs = ex_prices_def ex_session_def ex_frame_def ex_address_def ex_owner_def ex_env_def
  ex_world_def timedelta_hours_def timedelta_minutes_def

lemma price_row_fields:
  "start (price_row prices row) = start row"
  "end_ts (price_row prices row) = end_ts row"
  "energy (price_row prices row) = energy row"
  "id_chip_name (price_row prices row) = id_chip_name row"
  "wallbox_row.more (price_row prices row) = wallbox_row.more row"
  "Tibber_Price_EUR_kWh (price_row prices row) = Some (fl (effectivePrice prices row))"
  "Total_Cost_EUR (price_row prices row) = Some (unrounded_cost prices row)"
  by (simp_all add: price_row_def effectivePrice_def unrounded_cost_def Let_def)

lemma round_row_fields:
  "start (round_row row) = start row"
  "end_ts (round_row row) = end_ts row"
  "energy (round_row row) = np_round2 (energy row)"
  "id_chip_name (round_row row) = id_chip_name row"
  "wallbox_row.more (round_row row) = wallbox_row.more row"
  "Tibber_Price_EUR_kWh (round_row row) = map_option np_round2 (Tibber_Price_EUR_kWh row)"
  "Total_Cost_EUR (round_row row) = map_option np_round2 (Total_Cost_EUR row)"
  by (simp_all add: round_row_def)

lemma unrounded_cost_price_row:
  "unrounded_cost prices (price_row prices' row) = unrounded_cost prices row"
  by (simp add: unrounded_cost_def effectivePrice_def price_row_fields)

lemma match_here_prefix:
  "CHR ''.'' \<notin> set pat \<Longrightarrow> match_here pat s = prefix (map lower_ch pat) (map lower_ch s)"
  by (induction pat s rule: match_here.induct) (auto simp: pat_char_matches_def)

lemma re_search_sublist:
  "CHR ''.'' \<notin> set pat \<Longrightarrow> re_search pat s = sublist (map lower_ch pat) (map lower_ch s)"
proof (induction s)
  case Nil
  then show ?case by (cases pat) simp_all
next
  case (Cons c cs)
  then show ?case by (simp add: match_here_prefix sublist_Cons_right)
qed

lemma process_data_with_filters_result:
  assumes "re_compile re pat = Inr search"
    and "filter (\<lambda>row. str_contains search (id_chip_name row) \<and> start row \<ge> sd \<and> end_ts row \<le> ed)
           (rows wd) \<noteq> [] \<or> has_price_columns wd"
  shows "snd (process_data_with_filters re wd td pat sd ed (Some a) (Some ow)) =
     Inr \<lparr>filtered_data = map (price_row td)
              (filter (\<lambda>row. str_contains search (id_chip_name row) \<and> start row \<ge> sd \<and> end_ts row \<le> ed)
                 (rows wd)),
          start_date = sd, end_date = ed,
          total_energy = (\<Sum>row\<leftarrow>filter (\<lambda>row. str_contains search (id_chip_name row)
                                \<and> start row \<ge> sd \<and> end_ts row \<le> ed) (rows wd). energy row),
          total_cost = (\<Sum>row\<leftarrow>filter (\<lambda>row. str_contains search (id_chip_name row)
                                \<and> start row \<ge> sd \<and> end_ts row \<le> ed) (rows wd). unrounded_cost td row),
          report_address = a, report_owner = ow\<rparr>"
proof -
  let ?sel = "filter (\<lambda>row. str_contains search (id_chip_name row) \<and> start row \<ge> sd \<and> end_ts row \<le> ed)
      (rows wd)"
  have go: "\<not> (?sel = [] \<and> \<not> has_price_columns wd)"
    using assms(2) by simp
  show ?thesis
    unfolding process_data_with_filters_def assms(1)
    by (simp add: go Let_def series_sum_def price_row_fields comp_def)
qed

lemma process_data_with_filters_writes:
  assumes "snd (process_data_with_filters re wd td pat sd ed a ow) = Inr r"
  shows "\<exists>before. fst (process_data_with_filters re wd td pat sd ed a ow) =
     before @ [Wrote_xlsx (generate_excel_report r), Wrote_pdf (generate_pdf_report r),
               Print_reports_generated]"
  using assms
  by (auto simp: process_data_with_filters_def Let_def
      split: sum.splits option.splits if_splits)

lemma process_data_with_filters_empty:
  assumes "re_compile re pat = Inr search"
    and "filter (\<lambda>row. str_contains search (id_chip_name row) \<and> start row \<ge> sd \<and> end_ts row \<le> ed)
           (rows wd) = []"
    and "\<not> has_price_columns wd"
  shows "snd (process_data_with_filters re wd td pat sd ed a ow) = Inl ValueError"
  unfolding process_data_with_filters_def assms(1)
  by (simp add: assms(2,3) Let_def)

lemma export_table_with_prices_result:
  "rows frame \<noteq> [] \<Longrightarrow>
   export_table_with_prices (Some frame) (Some prices) =
     Inr (\<lparr>has_price_columns = True, rows = map (round_row \<circ> price_row prices) (rows frame)\<rparr>,
          price_prints prices (rows frame)
          @ [Wrote_csv (map (round_row \<circ> price_row prices) (rows frame)), Print_csv_completed])"
  by (simp add: export_table_with_prices_def Let_def)

lemma plain_pattern:
  assumes "list_all (\<lambda>c. c \<noteq> CHR ''.'' \<and> c \<notin> set other_metachars) pat"
  shows "re_compile re pat = Inr (re_search pat)" and "CHR ''.'' \<notin> set pat"
  using assms by (auto simp: re_compile_def list_all_iff)

lemma str_contains_plain:
  "CHR ''.'' \<notin> set pat \<Longrightarrow> str_contains (re_search pat) cell = spec_contains_ci pat cell"
  by (simp add: str_contains_def spec_contains_ci_def re_search_sublist split: option.splits)

lemma ex_effectivePrice: "effectivePrice ex_prices (ex_session kwh) = 7 / 20"
  by (simp add: effectivePrice_def calculate_tibber_price_def price_during_session_def
      series_mean_def ex_defs)

lemma ex_no_prints: "price_prints ex_prices [ex_session kwh] = []"
  by (simp add: price_prints_def calculate_tibber_price_def price_during_session_def ex_defs)

lemma ex_energy: "energy (ex_session kwh) = fl kwh"
  by (simp add: ex_session_def)

lemma ex_id: "id_chip_name (ex_session kwh) = Some ''VolvoXC40''"
  by (simp add: ex_session_def)

lemma ex_unrounded_cost: "unrounded_cost ex_prices (ex_session kwh) = fl (fl kwh * fl (7 / 20))"
  by (simp add: unrounded_cost_def ex_effectivePrice ex_energy)

lemma ex_search: "re_search ''volvo'' ''VolvoXC40''"
  by (simp add: pat_char_matches_def lower_ch_def)

lemma ex_compile: "re_compile (\<lambda>pat. None) ''volvo'' = Inr (re_search ''volvo'')"
  by (simp add: re_compile_def other_metachars_def)

lemma ex_dot_compile: "re_compile (\<lambda>pat. None) ''.'' = Inr (re_search ''.'')"
  by (simp add: re_compile_def other_metachars_def)

lemma ex_plain: "list_all (\<lambda>c. c \<noteq> CHR ''.'' \<and> c \<notin> set other_metachars) ''volvo''"
  by (simp add: other_metachars_def)

lemma ex_selected:
  "filter (\<lambda>row. str_contains (re_search ''volvo'') (id_chip_name row) \<and> 0 \<le> start row
              \<and> end_ts row \<le> timedelta_hours 24) [ex_session kwh] = [ex_session kwh]"
proof -
  have "str_contains (re_search ''volvo'') (id_chip_name (ex_session kwh))
      \<and> 0 \<le> start (ex_session kwh) \<and> end_ts (ex_session kwh) \<le> timedelta_hours 24"
    using ex_search
    by (simp add: str_contains_def ex_session_def timedelta_hours_def timedelta_minutes_def)
  then show ?thesis by simp
qed

lemma ex_process:
  "snd (process_data_with_filters (\<lambda>pat. None) \<lparr>has_price_columns = h, rows = [ex_session kwh]\<rparr>
      ex_prices ''volvo'' 0 (timedelta_hours 24) (Some ex_address) (Some ex_owner)) =
   Inr \<lparr>filtered_data = [price_row ex_prices (ex_session kwh)], start_date = 0,
        end_date = timedelta_hours 24, total_energy = fl kwh,
        total_cost = fl (fl kwh * fl (7 / 20)),
        report_address = ex_address, report_owner = ex_owner\<rparr>"
proof -
  have ne: "filter (\<lambda>row. str_contains (re_search ''volvo'') (id_chip_name row) \<and> 0 \<le> start row
              \<and> end_ts row \<le> timedelta_hours 24) (rows \<lparr>has_price_columns = h, rows = [ex_session kwh]\<rparr>) \<noteq> []
      \<or> has_price_columns \<lparr>has_price_columns = h, rows = [ex_session kwh]\<rparr>"
    by (simp add: ex_selected del: filter.simps)
  show ?thesis
    unfolding process_data_with_filters_result [OF ex_compile ne]
    by (simp add: ex_selected ex_energy ex_unrounded_cost del: filter.simps)
qed

lemma ex_export:
  "export_table_with_prices (Some (ex_frame kwh)) (Some ex_prices) =
     Inr (\<lparr>has_price_columns = True, rows = [round_row (price_row ex_prices (ex_session kwh))]\<rparr>,
          [Wrote_csv [round_row (price_row ex_prices (ex_session kwh))], Print_csv_completed])"
proof -
  have "rows (ex_frame kwh) \<noteq> []" by (simp add: ex_frame_def)
  from export_table_with_prices_result [OF this, of ex_prices] show ?thesis
    by (simp add: ex_frame_def ex_no_prints)
qed

lemma fl_fl_10: "fl (fl 10) = fl 10"
  by (simp add: fl_eval)

lemma cost_1_01_rounded: "np_round2 (fl (fl (101 / 100) * fl (7 / 20))) = fl (7 / 20)"
  by (simp add: np_round2_def fl_eval)

lemma cost_1_01_unrounded: "fl (fl (101 / 100) * fl (7 / 20)) \<noteq> fl (7 / 20)"
  by (simp add: fl_eval)

lemma energy_1_231_rounded: "np_round2 (fl (1231 / 1000)) = fl (123 / 100)"
  by (simp add: np_round2_def fl_eval)

lemma energy_1_231_changed: "fl (123 / 100) \<noteq> fl (1231 / 1000)"
  by (simp add: fl_eval)

subsection \<open>The effective price of a session\<close>

text \<open>
  Claim C1.  For every session \<open>[s, e)\<close> and price table \<open>df\<close>:
  when no interval of the table overlaps the session, \<open>calculate_tibber_price\<close> returns
  0 and prints the diagnostic line for \<open>(s, e)\<close>; otherwise it prints nothing and returns
  the unweighted arithmetic mean of \<open>unitPrice\<close> over the overlapping intervals, each
  counted once whatever share of the session it covers.
\<close>

theorem calculate_tibber_price_unweighted_mean:
  "calculate_tibber_price s e df =
     (if filter (spec_overlaps s e) df = []
      then (0, [(s, e)])
      else (spec_unweighted_mean (filter (spec_overlaps s e) df), []))"
  by (simp add: calculate_tibber_price_def price_during_session_def series_mean_def
      spec_unweighted_mean_def spec_overlaps_def [abs_def])

text \<open>
  In the scenario the session from 10:00 to 11:30 is priced at the plain mean 0.35 of the two
  rates, where the blend weighted by the 60 and 30 minutes spent in each hour would be 1/3;
  a session from 13:00 to 14:00 meets no interval and is priced at 0.
\<close>

theorem calculate_tibber_price_unweighted_mean_witness:
  "calculate_tibber_price (timedelta_hours 10) (timedelta_hours 11 + timedelta_minutes 30) ex_prices
     = (7 / 20, [])
   \<and> spec_weighted_mean (timedelta_hours 10) (timedelta_hours 11 + timedelta_minutes 30) ex_prices
     = 1 / 3
   \<and> calculate_tibber_price (timedelta_hours 13) (timedelta_hours 14) ex_prices
     = (0, [(timedelta_hours 13, timedelta_hours 14)])"
  using calculate_tibber_price_unweighted_mean
      [of "timedelta_hours 10" "timedelta_hours 11 + timedelta_minutes 30" ex_prices]
    calculate_tibber_price_unweighted_mean [of "timedelta_hours 13" "timedelta_hours 14" ex_prices]
  by (simp add: spec_overlaps_def spec_unweighted_mean_def spec_weighted_mean_def
      spec_overlap_duration_def ex_defs)

text \<open>
  Claim C2.  An interval is selected for the session \<open>[s, e)\<close> if and only if
  \<open>from \<le> e\<close> and \<open>to \<ge> s\<close>, and the price of the session is computed from the
  selected intervals alone: it is 0, with the diagnostic, when the table holds no interval
  with \<open>from \<le> e\<close> and \<open>to \<ge> s\<close>, and otherwise the mean over exactly the intervals
  with \<open>from \<le> e\<close> and \<open>to \<ge> s\<close>; an interval outside changes no price and alone
  gives 0, an interval inside alone gives its price.  Touching endpoints count: a table
  holding only an interval \<open>[f, s)\<close> that ends where the session starts gives that
  interval's price, not 0.
\<close>

theorem price_during_session_overlap_inclusive:
  "(r \<in> set (price_during_session s e df) \<longleftrightarrow> r \<in> set df \<and> from_ts r \<le> e \<and> to_ts r \<ge> s)
   \<and> calculate_tibber_price s e df =
       (if [x \<leftarrow> df. from_ts x \<le> e \<and> to_ts x \<ge> s] = [] then (0, [(s, e)])
        else (sum_list (map unitPrice [x \<leftarrow> df. from_ts x \<le> e \<and> to_ts x \<ge> s])
                / of_nat (length [x \<leftarrow> df. from_ts x \<le> e \<and> to_ts x \<ge> s]), []))
   \<and> (\<not> (from_ts r \<le> e \<and> to_ts r \<ge> s) \<longrightarrow>
        calculate_tibber_price s e (r # df) = calculate_tibber_price s e df
        \<and> calculate_tibber_price s e [r] = (0, [(s, e)]))
   \<and> (from_ts r \<le> e \<and> to_ts r \<ge> s \<longrightarrow> calculate_tibber_price s e [r] = (unitPrice r, []))
   \<and> (f \<le> s \<and> s \<le> e \<longrightarrow>
        calculate_tibber_price s e [\<lparr>from_ts = f, to_ts = s, unitPrice = p\<rparr>] = (p, []))"
  by (simp add: price_during_session_def calculate_tibber_price_def series_mean_def
     )

text \<open>The session 10:00 to 11:00 against the single interval 09:00 to 10:00, which touches
  it, and against the single interval 08:00 to 09:00, which does not.\<close>

theorem price_during_session_overlap_inclusive_witness:
  "timedelta_hours 9 \<le> timedelta_hours 10 \<and> timedelta_hours 10 \<le> timedelta_hours 11
   \<and> calculate_tibber_price (timedelta_hours 10) (timedelta_hours 11)
        [\<lparr>from_ts = timedelta_hours 9, to_ts = timedelta_hours 10, unitPrice = 1 / 4\<rparr>] = (1 / 4, [])
   \<and> \<not> (from_ts \<lparr>from_ts = timedelta_hours 8, to_ts = timedelta_hours 9, unitPrice = 1 / 4\<rparr>
            \<le> timedelta_hours 11
          \<and> to_ts \<lparr>from_ts = timedelta_hours 8, to_ts = timedelta_hours 9, unitPrice = 1 / 4\<rparr>
            \<ge> timedelta_hours 10)
   \<and> calculate_tibber_price (timedelta_hours 10) (timedelta_hours 11)
        [\<lparr>from_ts = timedelta_hours 8, to_ts = timedelta_hours 9, unitPrice = 1 / 4\<rparr>]
      = (0, [(timedelta_hours 10, timedelta_hours 11)])"
  using price_during_session_overlap_inclusive
    [of "\<lparr>from_ts = timedelta_hours 8, to_ts = timedelta_hours 9, unitPrice = 1 / 4\<rparr>"
        "timedelta_hours 10" "timedelta_hours 11" "[]" "timedelta_hours 9" "1 / 4"]
  by (simp add: timedelta_hours_def)

subsection \<open>Freshness of the cache\<close>

text \<open>
  Claim C6.  For every cache entry \<open>c\<close> and time \<open>n\<close>, \<open>is_cache_valid\<close> returns
  true if and only if the entry exists and \<open>n\<close> minus its timestamp is strictly less than
  one hour: an entry fetched at \<open>t\<close> is fresh at \<open>t\<close> + 59 min, stale at \<open>t\<close> + 61 min,
  and stale at exactly \<open>t\<close> + 60 min.
\<close>

theorem is_cache_valid_fresh_iff:
  "is_cache_valid n (Absent :: ('a, 'b) cache_file) = Inr False
   \<and> is_cache_valid n (Pickled c) = Inr (n - timestamp c < timedelta_hours 1)
   \<and> is_cache_valid (t + timedelta_minutes 59) (Pickled (c\<lparr>timestamp := t\<rparr>)) = Inr True
   \<and> is_cache_valid (t + timedelta_minutes 61) (Pickled (c\<lparr>timestamp := t\<rparr>)) = Inr False
   \<and> is_cache_valid (t + timedelta_minutes 60) (Pickled (c\<lparr>timestamp := t\<rparr>)) = Inr False"
  by (simp add: timedelta_hours_def timedelta_minutes_def)

subsection \<open>The summary totals\<close>

text \<open>
  Claim C3, as the specification states it, fails: the total cost is not the sum of the
  per-row costs rounded to 2 decimals.  For one session of 1.01 kWh at the price 0.35 the
  program's total is the unrounded float product (0.3535 up to the float's error), while
  the sum of the rounded row costs is the float 0.35.
\<close>

theorem summarize_rounded_sum_counterexample:
  "map_sum id (\<lambda>r. (total_cost r, spec_rounded_cost_total ex_prices (filtered_data r)))
     (snd (process_data_with_filters (\<lambda>pat. None) (ex_frame (101 / 100)) ex_prices ''volvo'' 0
        (timedelta_hours 24) (Some ex_address) (Some ex_owner)))
   = Inr (fl (fl (101 / 100) * fl (7 / 20)), fl (7 / 20))
   \<and> fl (fl (101 / 100) * fl (7 / 20)) \<noteq> fl (7 / 20)"
  by (simp add: ex_frame_def ex_process spec_rounded_cost_total_def unrounded_cost_price_row
      ex_unrounded_cost cost_1_01_rounded cost_1_01_unrounded)

text \<open>
  Claim C3, amended.  Whenever the identifier pattern compiles and a session is selected or
  the frame has the price columns already, \<open>process_data_with_filters\<close> reaches the
  report generators with \<open>total_energy\<close> the sum of the energy fields of the retained
  rows and \<open>total_cost\<close> the sum of their unrounded costs, each the float product of
  energy and effective price.  When no session is selected from a frame without the price
  columns, the function raises \<open>ValueError\<close> and computes no total.
\<close>

theorem summarize_totals_unrounded:
  "(re_compile re pat = Inr search
      \<and> (filter (\<lambda>row. str_contains search (id_chip_name row) \<and> start row \<ge> sd \<and> end_ts row \<le> ed)
            (rows wd) \<noteq> [] \<or> has_price_columns wd) \<longrightarrow>
      (\<exists>r. snd (process_data_with_filters re wd td pat sd ed (Some a) (Some ow)) = Inr r
         \<and> total_energy r = (\<Sum>row\<leftarrow>filtered_data r. energy row)
         \<and> total_cost r = (\<Sum>row\<leftarrow>filtered_data r. unrounded_cost td row)))
   \<and> (re_compile re pat = Inr search
      \<and> filter (\<lambda>row. str_contains search (id_chip_name row) \<and> start row \<ge> sd \<and> end_ts row \<le> ed)
            (rows wd) = [] \<and> \<not> has_price_columns wd \<longrightarrow>
      snd (process_data_with_filters re wd td pat sd ed (Some a) (Some ow)) = Inl ValueError)"
proof (intro conjI impI)
  assume h: "re_compile re pat = Inr search
      \<and> (filter (\<lambda>row. str_contains search (id_chip_name row) \<and> start row \<ge> sd \<and> end_ts row \<le> ed)
            (rows wd) \<noteq> [] \<or> has_price_columns wd)"
  show "\<exists>r. snd (process_data_with_filters re wd td pat sd ed (Some a) (Some ow)) = Inr r
         \<and> total_energy r = (\<Sum>row\<leftarrow>filtered_data r. energy row)
         \<and> total_cost r = (\<Sum>row\<leftarrow>filtered_data r. unrounded_cost td row)"
    unfolding process_data_with_filters_result [OF conjunct1 [OF h] conjunct2 [OF h]]
    by (simp add: comp_def price_row_fields unrounded_cost_price_row)
next
  assume h: "re_compile re pat = Inr search
      \<and> filter (\<lambda>row. str_contains search (id_chip_name row) \<and> start row \<ge> sd \<and> end_ts row \<le> ed)
            (rows wd) = [] \<and> \<not> has_price_columns wd"
  show "snd (process_data_with_filters re wd td pat sd ed (Some a) (Some ow)) = Inl ValueError"
    using h by (intro process_data_with_filters_empty [of re pat search]) simp_all
qed

text \<open>The session of 1.01 kWh is selected and totalled; a frame with no row and no price
  column makes the function raise.\<close>

theorem summarize_totals_unrounded_witness:
  "re_compile (\<lambda>pat. None) ''volvo'' = Inr (re_search ''volvo'')
   \<and> filter (\<lambda>row. str_contains (re_search ''volvo'') (id_chip_name row) \<and> start row \<ge> 0
               \<and> end_ts row \<le> timedelta_hours 24) (rows (ex_frame (101 / 100))) \<noteq> []
   \<and> (\<exists>r. snd (process_data_with_filters (\<lambda>pat. None) (ex_frame (101 / 100)) ex_prices ''volvo'' 0
              (timedelta_hours 24) (Some ex_address) (Some ex_owner)) = Inr r
         \<and> total_energy r = (\<Sum>row\<leftarrow>filtered_data r. energy row)
         \<and> total_cost r = (\<Sum>row\<leftarrow>filtered_data r. unrounded_cost ex_prices row))
   \<and> \<not> has_price_columns \<lparr>has_price_columns = False, rows = [] :: wallbox_row list\<rparr>
   \<and> snd (process_data_with_filters (\<lambda>pat. None)
            \<lparr>has_price_columns = False, rows = [] :: wallbox_row list\<rparr> ex_prices ''volvo'' 0
            (timedelta_hours 24) (Some ex_address) (Some ex_owner)) = Inl ValueError"
proof -
  have sel: "filter (\<lambda>row. str_contains (re_search ''volvo'') (id_chip_name row) \<and> start row \<ge> 0
               \<and> end_ts row \<le> timedelta_hours 24) (rows (ex_frame (101 / 100))) \<noteq> []"
    by (simp add: ex_frame_def ex_selected del: filter.simps)
  note t1 = summarize_totals_unrounded [where re = "\<lambda>pat. None" and pat = "''volvo''"
      and search = "re_search ''volvo''" and sd = 0 and ed = "timedelta_hours 24"
      and wd = "ex_frame (101 / 100)" and td = ex_prices and a = ex_address and ow = ex_owner,
      THEN conjunct1, rule_format, OF conjI [OF ex_compile disjI1 [OF sel]]]
  have nc: "\<not> has_price_columns \<lparr>has_price_columns = False, rows = [] :: wallbox_row list\<rparr>"
    by simp
  have e: "filter (\<lambda>row. str_contains (re_search ''volvo'') (id_chip_name row) \<and> start row \<ge> 0
               \<and> end_ts row \<le> timedelta_hours 24)
             (rows \<lparr>has_price_columns = False, rows = [] :: wallbox_row list\<rparr>) = []"
    by simp
  note t2 = summarize_totals_unrounded [where re = "\<lambda>pat. None" and pat = "''volvo''"
      and search = "re_search ''volvo''" and sd = 0 and ed = "timedelta_hours 24"
      and wd = "\<lparr>has_price_columns = False, rows = [] :: wallbox_row list\<rparr>" and td = ex_prices
      and a = ex_address and ow = ex_owner,
      THEN conjunct2, rule_format, OF conjI [OF ex_compile conjI [OF e nc]]]
  show ?thesis
    by (intro conjI) (fact ex_compile sel t1 nc t2)+
qed

subsection \<open>The session filter\<close>

text \<open>
  Claim C7 says that the filter retains exactly the sessions whose identifier contains the
  substring, letter case ignored.  The program does otherwise: it hands the input to
  \<open>Series.str.contains\<close> with the default \<open>regex=True\<close>, so the input is read as a
  regular expression.  The input \<open>.\<close> retains the session \<open>VolvoXC40\<close>, whose
  identifier does not contain a full stop and which the specification's test rejects.
\<close>

theorem filter_substring_counterexample:
  "map_sum id (\<lambda>r. map id_chip_name (filtered_data r))
       (snd (process_data_with_filters (\<lambda>pat. None) (ex_frame 10) ex_prices ''.'' 0
          (timedelta_hours 24) (Some ex_address) (Some ex_owner)))
     = Inr [Some ''VolvoXC40'']
   \<and> filter (spec_retained ''.'' 0 (timedelta_hours 24)) (rows (ex_frame 10)) = []"
proof -
  have a: "str_contains (re_search ''.'') (id_chip_name (ex_session 10))
      \<and> 0 \<le> start (ex_session 10) \<and> end_ts (ex_session 10) \<le> timedelta_hours 24"
    by (simp add: str_contains_def ex_session_def pat_char_matches_def timedelta_hours_def
        timedelta_minutes_def)
  then have s: "filter (\<lambda>row. str_contains (re_search ''.'') (id_chip_name row) \<and> 0 \<le> start row
              \<and> end_ts row \<le> timedelta_hours 24) (rows (ex_frame 10)) = [ex_session 10]"
    by (simp add: ex_frame_def)
  have b: "\<not> spec_retained ''.'' 0 (timedelta_hours 24) (ex_session 10)"
    by (simp add: spec_retained_def spec_contains_ci_def ex_session_def lower_ch_def
        sublist_Cons_right)
  have ne: "filter (\<lambda>row. str_contains (re_search ''.'') (id_chip_name row) \<and> 0 \<le> start row
              \<and> end_ts row \<le> timedelta_hours 24) (rows (ex_frame 10)) \<noteq> []
      \<or> has_price_columns (ex_frame 10)"
    unfolding s by simp
  show ?thesis
    unfolding process_data_with_filters_result [OF ex_dot_compile ne] s
    using b by (simp add: price_row_fields ex_id ex_frame_def)
qed

subsection \<open>What pricing leaves unchanged\<close>

text \<open>
  Claim C9, as the specification states it, fails: the export rounds the \<open>energy\<close>
  column in place.  A session of 1.231 kWh leaves \<open>export_table_with_prices\<close> with
  1.23 kWh.
\<close>

theorem export_changes_energy_counterexample:
  "map_sum id (\<lambda>(frame, ev). map energy (rows frame))
       (export_table_with_prices (Some (ex_frame (1231 / 1000))) (Some ex_prices))
     = Inr [fl (123 / 100)]
   \<and> map energy (rows (ex_frame (1231 / 1000))) = [fl (1231 / 1000)]
   \<and> fl (123 / 100) \<noteq> fl (1231 / 1000)"
proof -
  have a: "map_sum id (\<lambda>(frame, ev). map energy (rows frame))
       (export_table_with_prices (Some (ex_frame (1231 / 1000))) (Some ex_prices))
     = Inr [fl (123 / 100)]"
    by (simp add: ex_export round_row_fields price_row_fields ex_energy energy_1_231_rounded)
  have b: "map energy (rows (ex_frame (1231 / 1000))) = [fl (1231 / 1000)]"
    by (simp add: ex_frame_def ex_energy)
  show ?thesis
    by (intro conjI) (fact a b energy_1_231_changed)+
qed

text \<open>
  Claim C9, amended.  \<open>export_table_with_prices\<close> leaves start, end, identifier and
  every passthrough column of every session unchanged and replaces \<open>energy\<close> by its
  value rounded to 2 decimals; \<open>process_data_with_filters\<close>, where it reaches the
  reports, leaves all of them, energy included, unchanged in the sessions it retains.  Both
  set the two derived columns only.
\<close>

theorem session_fields_unchanged_but_energy:
  "(rows frame \<noteq> [] \<longrightarrow>
      (\<exists>frame' ev. export_table_with_prices (Some frame) (Some prices) = Inr (frame', ev)
         \<and> list_all2 unchanged_but_energy (rows frame) (rows frame')))
   \<and> (re_compile re pat = Inr search
      \<and> (filter (\<lambda>row. str_contains search (id_chip_name row) \<and> start row \<ge> sd \<and> end_ts row \<le> ed)
            (rows wd) \<noteq> [] \<or> has_price_columns wd) \<longrightarrow>
      (\<exists>r sel. snd (process_data_with_filters re wd td pat sd ed (Some a) (Some ow)) = Inr r
         \<and> subseq sel (rows wd) \<and> list_all2 unchanged_but_derived sel (filtered_data r)))"
proof (intro conjI impI)
  assume "rows frame \<noteq> []"
  then show "\<exists>frame' ev. export_table_with_prices (Some frame) (Some prices) = Inr (frame', ev)
         \<and> list_all2 unchanged_but_energy (rows frame) (rows frame')"
    by (simp add: export_table_with_prices_result list_all2_map2 list_all2_same
        unchanged_but_energy_def round_row_fields price_row_fields)
next
  assume h: "re_compile re pat = Inr search
      \<and> (filter (\<lambda>row. str_contains search (id_chip_name row) \<and> start row \<ge> sd \<and> end_ts row \<le> ed)
            (rows wd) \<noteq> [] \<or> has_price_columns wd)"
  let ?sel = "filter (\<lambda>row. str_contains search (id_chip_name row) \<and> start row \<ge> sd \<and> end_ts row \<le> ed)
      (rows wd)"
  have sub: "subseq ?sel (rows wd)" by simp
  have la: "list_all2 unchanged_but_derived ?sel (map (price_row td) ?sel)"
    by (simp add: list_all2_map2 list_all2_same unchanged_but_derived_def price_row_fields)
  obtain r where r: "snd (process_data_with_filters re wd td pat sd ed (Some a) (Some ow)) = Inr r"
    and f: "filtered_data r = map (price_row td) ?sel"
    by (simp add: process_data_with_filters_result [OF conjunct1 [OF h] conjunct2 [OF h]])
  have la': "list_all2 unchanged_but_derived ?sel (filtered_data r)"
    unfolding f by (fact la)
  show "\<exists>r sel. snd (process_data_with_filters re wd td pat sd ed (Some a) (Some ow)) = Inr r
         \<and> subseq sel (rows wd) \<and> list_all2 unchanged_but_derived sel (filtered_data r)"
    by (rule exI [of _ r], rule exI [of _ ?sel], intro conjI) (fact r sub la')+
qed

theorem session_fields_unchanged_but_energy_witness:
  "rows (ex_frame (1231 / 1000)) \<noteq> []
   \<and> (\<exists>frame' ev. export_table_with_prices (Some (ex_frame (1231 / 1000))) (Some ex_prices)
          = Inr (frame', ev)
        \<and> list_all2 unchanged_but_energy (rows (ex_frame (1231 / 1000))) (rows frame'))
   \<and> re_compile (\<lambda>pat. None) ''volvo'' = Inr (re_search ''volvo'')
   \<and> filter (\<lambda>row. str_contains (re_search ''volvo'') (id_chip_name row) \<and> start row \<ge> 0
               \<and> end_ts row \<le> timedelta_hours 24) (rows (ex_frame (1231 / 1000))) \<noteq> []
   \<and> (\<exists>r sel. snd (process_data_with_filters (\<lambda>pat. None) (ex_frame (1231 / 1000)) ex_prices
              ''volvo'' 0 (timedelta_hours 24) (Some ex_address) (Some ex_owner)) = Inr r
        \<and> subseq sel (rows (ex_frame (1231 / 1000)))
        \<and> list_all2 unchanged_but_derived sel (filtered_data r))"
proof -
  have ne: "rows (ex_frame (1231 / 1000)) \<noteq> []"
    by (simp add: ex_frame_def)
  have sel: "filter (\<lambda>row. str_contains (re_search ''volvo'') (id_chip_name row) \<and> start row \<ge> 0
               \<and> end_ts row \<le> timedelta_hours 24) (rows (ex_frame (1231 / 1000))) \<noteq> []"
    by (simp add: ex_frame_def ex_selected del: filter.simps)
  note t = session_fields_unchanged_but_energy [where frame = "ex_frame (1231 / 1000)"
      and prices = ex_prices and re = "\<lambda>pat. None" and pat = "''volvo''"
      and search = "re_search ''volvo''" and sd = 0 and ed = "timedelta_hours 24"
      and wd = "ex_frame (1231 / 1000)" and td = ex_prices and a = ex_address and ow = ex_owner]
  note t1 = t [THEN conjunct1, rule_format, OF ne]
  note t2 = t [THEN conjunct2, rule_format, OF conjI [OF ex_compile disjI1 [OF sel]]]
  show ?thesis
    by (intro conjI) (fact ne t1 ex_compile sel t2)+
qed

subsection \<open>Rounding of the per-row cost\<close>

text \<open>
  Taken alone, each pricing step forms the cost of a session as the float product of the
  energy and the effective price of the row it is given, and rounds only afterwards:
  \<open>export_table_with_prices\<close> stores the product rounded to 2 decimals and writes
  these rows to the CSV file; \<open>process_data_with_filters\<close>, where it reaches the
  reports, keeps the product unrounded in the frame, and both reports show it with
  2 decimals.
\<close>

lemma pricing_step_rounds_after_product:
  "(rows frame \<noteq> [] \<longrightarrow>
      (\<exists>frame' ev. export_table_with_prices (Some frame) (Some prices) = Inr (frame', ev)
         \<and> map Total_Cost_EUR (rows frame')
             = map (\<lambda>row. Some (np_round2 (unrounded_cost prices row))) (rows frame)
         \<and> Wrote_csv (rows frame') \<in> set ev))
   \<and> (re_compile re pat = Inr search
      \<and> (filter (\<lambda>row. str_contains search (id_chip_name row) \<and> start row \<ge> sd \<and> end_ts row \<le> ed)
            (rows wd) \<noteq> [] \<or> has_price_columns wd) \<longrightarrow>
      (\<exists>r. snd (process_data_with_filters re wd td pat sd ed (Some a) (Some ow)) = Inr r
         \<and> map Total_Cost_EUR (filtered_data r)
             = map (\<lambda>row. Some (unrounded_cost td row)) (filtered_data r)
         \<and> Wrote_xlsx (generate_excel_report r)
             \<in> set (fst (process_data_with_filters re wd td pat sd ed (Some a) (Some ow)))
         \<and> Wrote_pdf (generate_pdf_report r)
             \<in> set (fst (process_data_with_filters re wd td pat sd ed (Some a) (Some ow)))
         \<and> map line_cost (shown_lines (generate_excel_report r))
             = map (\<lambda>row. Some (format_f 2 (unrounded_cost td row))) (filtered_data r)
         \<and> map line_cost (shown_lines (generate_pdf_report r))
             = map (\<lambda>row. Some (format_f 2 (unrounded_cost td row))) (filtered_data r)))"
proof (intro conjI impI)
  assume "rows frame \<noteq> []"
  then show "\<exists>frame' ev. export_table_with_prices (Some frame) (Some prices) = Inr (frame', ev)
         \<and> map Total_Cost_EUR (rows frame')
             = map (\<lambda>row. Some (np_round2 (unrounded_cost prices row))) (rows frame)
         \<and> Wrote_csv (rows frame') \<in> set ev"
    by (simp add: export_table_with_prices_result round_row_fields price_row_fields)
next
  assume h: "re_compile re pat = Inr search
      \<and> (filter (\<lambda>row. str_contains search (id_chip_name row) \<and> start row \<ge> sd \<and> end_ts row \<le> ed)
            (rows wd) \<noteq> [] \<or> has_price_columns wd)"
  let ?sel = "filter (\<lambda>row. str_contains search (id_chip_name row) \<and> start row \<ge> sd \<and> end_ts row \<le> ed)
      (rows wd)"
  obtain r where r: "snd (process_data_with_filters re wd td pat sd ed (Some a) (Some ow)) = Inr r"
    and f: "filtered_data r = map (price_row td) ?sel"
    by (simp add: process_data_with_filters_result [OF conjunct1 [OF h] conjunct2 [OF h]])
  have c: "map Total_Cost_EUR (filtered_data r)
      = map (\<lambda>row. Some (unrounded_cost td row)) (filtered_data r)"
    unfolding f by (simp add: price_row_fields unrounded_cost_price_row)
  obtain before where b: "fst (process_data_with_filters re wd td pat sd ed (Some a) (Some ow)) =
      before @ [Wrote_xlsx (generate_excel_report r), Wrote_pdf (generate_pdf_report r),
                Print_reports_generated]"
    using process_data_with_filters_writes [OF r] by blast
  have x: "Wrote_xlsx (generate_excel_report r)
      \<in> set (fst (process_data_with_filters re wd td pat sd ed (Some a) (Some ow)))"
    unfolding b by simp
  have p: "Wrote_pdf (generate_pdf_report r)
      \<in> set (fst (process_data_with_filters re wd td pat sd ed (Some a) (Some ow)))"
    unfolding b by simp
  have lx: "map line_cost (shown_lines (generate_excel_report r))
      = map (\<lambda>row. Some (format_f 2 (unrounded_cost td row))) (filtered_data r)"
    unfolding f
    by (simp add: generate_excel_report_def f price_row_fields unrounded_cost_price_row)
  have lp: "map line_cost (shown_lines (generate_pdf_report r))
      = map (\<lambda>row. Some (format_f 2 (unrounded_cost td row))) (filtered_data r)"
    unfolding f
    by (simp add: generate_pdf_report_def f price_row_fields unrounded_cost_price_row)
  show "\<exists>r. snd (process_data_with_filters re wd td pat sd ed (Some a) (Some ow)) = Inr r
         \<and> map Total_Cost_EUR (filtered_data r)
             = map (\<lambda>row. Some (unrounded_cost td row)) (filtered_data r)
         \<and> Wrote_xlsx (generate_excel_report r)
             \<in> set (fst (process_data_with_filters re wd td pat sd ed (Some a) (Some ow)))
         \<and> Wrote_pdf (generate_pdf_report r)
             \<in> set (fst (process_data_with_filters re wd td pat sd ed (Some a) (Some ow)))
         \<and> map line_cost (shown_lines (generate_excel_report r))
             = map (\<lambda>row. Some (format_f 2 (unrounded_cost td row))) (filtered_data r)
         \<and> map line_cost (shown_lines (generate_pdf_report r))
             = map (\<lambda>row. Some (format_f 2 (unrounded_cost td row))) (filtered_data r)"
    by (rule exI [of _ r], intro conjI) (fact r c x p lx lp)+
qed

text \<open>
  Claim C8 says that the per-row cost that is exported is the product of the session's
  energy and its effective price, rounded after the product is formed.  A run of the
  program does otherwise.  \<open>export_table_with_prices\<close> rounds the \<open>energy\<close>
  column of the caller's frame in place, and \<open>main\<close> passes the same frame on to
  \<open>process_data_with_filters\<close>, whose product is therefore formed from the rounded
  energy.  For a session of 1.443 kWh at 0.35 the product is 0.50505: the CSV file holds
  0.51, and so would the product shown with 2 decimals, but the spreadsheet report of the
  same run shows 0.50, from 1.44 kWh.
\<close>

theorem report_cost_from_rounded_energy:
  "exported_csv_costs (trace (fst (main (ex_env (1443 / 1000)) (ex_world Absent))))
     = [[Some (fl (51 / 100))]]
   \<and> exported_xlsx_costs (trace (fst (main (ex_env (1443 / 1000)) (ex_world Absent))))
     = [[Some (1 / 2)]]
   \<and> format_f 2 (unrounded_cost ex_prices (ex_session (1443 / 1000))) = 51 / 100"
  by (simp add: main_def fetch_wallbox_data_def fetch_tibber_data_def save_cache_def
      report_steps_def export_table_with_prices_def process_data_with_filters_def
      re_compile_def other_metachars_def str_contains_def pat_char_matches_def lower_ch_def
      price_row_def round_row_def price_prints_def calculate_tibber_price_def
      price_during_session_def series_mean_def series_sum_def generate_excel_report_def
      generate_pdf_report_def format_f_def np_round2_def unrounded_cost_def effectivePrice_def
      exported_csv_costs_def exported_xlsx_costs_def fl_eval ex_defs)

subsection \<open>Corrupt and absent cache files\<close>

lemma report_steps_frame:
  "cache_file (fst (report_steps env w wd td a ow)) = cache_file w
   \<and> (\<exists>ev. trace (fst (report_steps env w wd td a ow)) = trace w @ ev)"
  by (auto simp: report_steps_def Let_def split: sum.splits option.splits prod.splits)

lemma main_miss_trace:
  assumes "is_cache_valid (now env) (cache_file w) = Inr False"
  shows "\<exists>rest. trace (fst (main env w)) = trace w @ [Print_fetching, Http_get_wallbox] @ rest"
proof -
  obtain res wev where fw: "fetch_wallbox_data env = (res, wev)"
    by (cases "fetch_wallbox_data env")
  then obtain tl where wev: "wev = Http_get_wallbox # tl"
    by (auto simp: fetch_wallbox_data_def split: response.splits prod.splits)
  show ?thesis
  proof (cases res)
    case (Inl e)
    then show ?thesis by (simp add: main_def assms fw wev)
  next
    case (Inr x)
    obtain wd' a' o' where x: "x = (wd', a', o')" by (cases x)
    obtain res2 tev where ft: "fetch_tibber_data env = (res2, tev)"
      by (cases "fetch_tibber_data env")
    show ?thesis
    proof (cases res2)
      case (Inl e)
      then show ?thesis by (simp add: main_def assms fw wev Inr x ft)
    next
      case r2: (Inr y)
      obtain td' ta' to' where y: "y = (td', ta', to')" by (cases y)
      let ?w = "\<lparr>cache_file = save_cache (now env) wd' td' ta' to',
                 trace = trace w @ [Print_fetching] @ wev @ tev\<rparr>"
      obtain ev where "trace (fst (report_steps env ?w wd' td' ta' to')) = trace ?w @ ev"
        using report_steps_frame [of env ?w wd' td' ta' to'] by blast
      then show ?thesis by (simp add: main_def assms fw wev Inr x ft r2 y)
    qed
  qed
qed

text \<open>
  Claim C10, as the specification states it, fails for a corrupt cache file: the run ends
  with the exception of \<open>pickle.load\<close> before anything is retrieved.
\<close>

theorem corrupt_cache_fatal_counterexample:
  "main (ex_env 10) (ex_world Corrupt) = (\<lparr>cache_file = Corrupt, trace = []\<rparr>, Inl UnpicklingError)"
  by (simp add: main_def ex_world_def)

text \<open>
  Claim C10, amended.  An absent cache file is treated as a cache miss: the freshness check
  reports not-fresh and fresh retrieval is triggered, the run going on to request the
  Wallbox data.  A corrupt cache file is not: the freshness check raises, and the run
  terminates with that exception, the state unchanged.
\<close>

theorem absent_cache_is_miss_corrupt_cache_raises:
  "(cache_file w = Absent \<longrightarrow>
      is_cache_valid (now env) (cache_file w) = Inr False
      \<and> (\<exists>rest. trace (fst (main env w)) = trace w @ [Print_fetching, Http_get_wallbox] @ rest))
   \<and> (cache_file w = Corrupt \<longrightarrow> main env w = (w, Inl UnpicklingError))"
proof (intro conjI impI)
  assume a: "cache_file w = Absent"
  then show v: "is_cache_valid (now env) (cache_file w) = Inr False" by simp
  show "\<exists>rest. trace (fst (main env w)) = trace w @ [Print_fetching, Http_get_wallbox] @ rest"
    by (rule main_miss_trace [OF v])
next
  assume "cache_file w = Corrupt"
  then show "main env w = (w, Inl UnpicklingError)" by (simp add: main_def)
qed

theorem absent_cache_is_miss_corrupt_cache_raises_witness:
  "cache_file (ex_world Absent) = Absent
   \<and> is_cache_valid (now (ex_env 10)) (cache_file (ex_world Absent)) = Inr False
   \<and> (\<exists>rest. trace (fst (main (ex_env 10) (ex_world Absent)))
          = trace (ex_world Absent) @ [Print_fetching, Http_get_wallbox] @ rest)
   \<and> cache_file (ex_world Corrupt) = Corrupt
   \<and> main (ex_env 10) (ex_world Corrupt) = (ex_world Corrupt, Inl UnpicklingError)"
proof -
  have a: "cache_file (ex_world Absent) = Absent" by (simp add: ex_world_def)
  have c: "cache_file (ex_world Corrupt) = Corrupt" by (simp add: ex_world_def)
  note t1 = absent_cache_is_miss_corrupt_cache_raises [where w = "ex_world Absent"
      and env = "ex_env 10", THEN conjunct1, rule_format, OF a]
  note t2 = absent_cache_is_miss_corrupt_cache_raises [where w = "ex_world Corrupt"
      and env = "ex_env 10", THEN conjunct2, rule_format, OF c]
  show ?thesis
    by (intro conjI) (fact a conjunct1 [OF t1] conjunct2 [OF t1] c t2)+
qed

subsection \<open>A failed retrieval\<close>

text \<open>
  Claim C4 says that a failed retrieval aborts the run at once and persists nothing.  The
  program does otherwise: when the Wallbox request fails, the run logs the error, still
  queries Tibber, pickles a cache entry whose \<open>wallbox_data\<close> is \<open>None\<close>, and only
  then ends, with the \<open>AttributeError\<close> of the export.  No export or report file is
  written.
\<close>

theorem wallbox_failure_persists_cache:
  "main ((ex_env 10)\<lparr>wallbox_response := Request_exception\<rparr>) (ex_world Absent) =
     (\<lparr>cache_file = Pickled \<lparr>timestamp = timedelta_hours 13, wallbox_data = None,
                             tibber_data = Some ex_prices, address = Some ex_address,
                             owner = Some ex_owner\<rparr>,
       trace = [Print_fetching, Http_get_wallbox, Log_error_wallbox, Http_post_tibber, Print_exporting]\<rparr>,
      Inl AttributeError)"
  by (simp add: main_def ex_world_def ex_env_def ex_prices_def fetch_wallbox_data_def
      fetch_tibber_data_def save_cache_def report_steps_def export_table_with_prices_def)

text \<open>
  Claim C5 says that no partial cache entry is ever written or read back.  The program does
  otherwise: when the Tibber request fails, the entry it pickles has no price table, address
  or owner; a minute later that entry passes \<open>is_cache_valid\<close> and \<open>load_cache\<close>
  reads it and raises \<open>TypeError\<close>.
\<close>

theorem tibber_failure_partial_cache_read_back:
  "main ((ex_env 10)\<lparr>tibber_response := Request_exception\<rparr>) (ex_world Absent) =
     (\<lparr>cache_file = Pickled \<lparr>timestamp = timedelta_hours 13, wallbox_data = Some (ex_frame 10),
                             tibber_data = None, address = None, owner = None\<rparr>,
       trace = [Print_fetching, Http_get_wallbox, Http_post_tibber, Log_error_tibber, Print_exporting]\<rparr>,
      Inl TypeError)
   \<and> is_cache_valid (timedelta_hours 13 + timedelta_minutes 1)
       (cache_file (fst (main ((ex_env 10)\<lparr>tibber_response := Request_exception\<rparr>)
          (ex_world Absent)))) = Inr True
   \<and> load_cache (cache_file (fst (main ((ex_env 10)\<lparr>tibber_response := Request_exception\<rparr>)
          (ex_world Absent))))
       = Inl TypeError"
proof -
  have m: "main ((ex_env 10)\<lparr>tibber_response := Request_exception\<rparr>) (ex_world Absent) =
     (\<lparr>cache_file = Pickled \<lparr>timestamp = timedelta_hours 13, wallbox_data = Some (ex_frame 10),
                             tibber_data = None, address = None, owner = None\<rparr>,
       trace = [Print_fetching, Http_get_wallbox, Http_post_tibber, Log_error_tibber, Print_exporting]\<rparr>,
      Inl TypeError)"
    by (simp add: main_def ex_world_def ex_env_def ex_frame_def ex_session_def fl_fl_10
        fetch_wallbox_data_def fetch_tibber_data_def save_cache_def report_steps_def
        export_table_with_prices_def)
  show ?thesis
    unfolding m by (simp add: timedelta_hours_def timedelta_minutes_def)
qed

end
